theory Spec2Isabelle
  imports Complex_Main
begin

section \<open>The substrate: styles, measurements, collaborators\<close>

text \<open>
  The source file \<^verbatim>\<open>jquery.positionsticky.js\<close> holds two variants of
  PositionSticky: a modular one (methods \<^verbatim>\<open>_init\<close>, \<^verbatim>\<open>_update\<close>, ..., built on the
  collaborators Sticky, Container and Placeholder) and an older inline one (methods
  \<^verbatim>\<open>init\<close>, \<^verbatim>\<open>update\<close>, ...). A name cannot start with an underscore here, so the
  modular variant's definitions carry the source names without the underscore, and the
  inline variant's definitions the prefix \<open>legacy_\<close> (its fields the prefix \<open>l_\<close>).

  JavaScript numbers are modelled as reals. A style value is either an identifier
  (\<^verbatim>\<open>'static'\<close>, \<^verbatim>\<open>'block'\<close>) or a length \<^verbatim>\<open>n + 'px'\<close>.
\<close>

datatype css_value = Ident string | Px real

datatype node = StickyElement | PlaceholderElement | ContainerElement

text \<open>
  The inline styles of the three nodes the program touches, and the trace of every
  style write it performed, oldest first. A write of \<open>None\<close> is a removal
  (\<^verbatim>\<open>removeProperty\<close>, or the assignment of \<^verbatim>\<open>null\<close>).
\<close>

record document =
  styleOf :: "node \<Rightarrow> string \<rightharpoonup> css_value"
  writes :: "(node \<times> string \<times> css_value option) list"

definition setStyle :: "node \<Rightarrow> string \<Rightarrow> css_value option \<Rightarrow> document \<Rightarrow> document" where
  "setStyle n p v d =
     d\<lparr> styleOf := (styleOf d)(n := (styleOf d n)(p := v)),
        writes := writes d @ [(n, p, v)] \<rparr>"

text \<open>
  What the browser reports when the program measures: every field is one read of the
  source. The readings are inputs of each call, since the layout changes as the page
  scrolls.
\<close>

record layout =
  pageYOffset :: real
  pageXOffset :: real
  stickyRectTop :: real
  stickyRectLeft :: real
  stickyRectWidth :: real
  stickyRectHeight :: real
  stickyOffsetLeft :: real
  stickyMarginLeft :: real
  placeholderRectTop :: real
  containerRectBottom :: real

text \<open>The Container collaborator's box metrics, as \<^verbatim>\<open>Container.create\<close> returned them.\<close>

record container =
  borderTopWidth :: real
  borderBottomWidth :: real
  paddingTop :: real
  paddingBottom :: real

record sticky =
  boundingBoxWidth :: real
  boundingBoxHeight :: real

datatype js_value = JSUndefined | JSNumber real | JSString string

record options =
  opt_offsetTop :: js_value

section \<open>The modular variant\<close>

text \<open>
  The instance, with the two pieces of the host it acts on: \<open>doc\<close>, the styles it
  writes, and \<open>rafQueue\<close>, the number of \<^verbatim>\<open>_update\<close> callbacks handed to
  \<^verbatim>\<open>rAF\<close> and not yet run. A numeric slot that the source initialises to
  \<^verbatim>\<open>null\<close> holds 0 until \<open>init\<close> assigns it.
\<close>

record position_sticky =
  sticky :: sticky
  container :: container
  posScheme :: nat
  isTicking :: bool
  threshold :: real
  options :: options
  leftPositionWhenAbsolute :: real
  leftPositionWhenFixed :: real
  latestKnownScrollY :: real
  offsetTop :: real
  offsetBottom :: real
  doc :: document
  rafQueue :: nat

definition POS_SCHEME_STATIC :: nat where "POS_SCHEME_STATIC = 100"
definition POS_SCHEME_FIXED :: nat where "POS_SCHEME_FIXED = 200"
definition POS_SCHEME_ABSOLUTE :: nat where "POS_SCHEME_ABSOLUTE = 300"

definition setOffsetTop :: "position_sticky \<Rightarrow> position_sticky" where
  "setOffsetTop s =
     (case opt_offsetTop (options s) of
        JSNumber n \<Rightarrow>
          if n \<ge> 0 then s\<lparr>offsetTop := n\<rparr>
          else s\<lparr>offsetTop := borderTopWidth (container s) + paddingTop (container s)\<rparr>
      | _ \<Rightarrow> s\<lparr>offsetTop := borderTopWidth (container s) + paddingTop (container s)\<rparr>)"

definition setOffsetBottom :: "position_sticky \<Rightarrow> position_sticky" where
  "setOffsetBottom s =
     s\<lparr>offsetBottom := borderBottomWidth (container s) + paddingBottom (container s)\<rparr>"

definition isStatic :: "position_sticky \<Rightarrow> bool" where
  "isStatic s = (posScheme s = POS_SCHEME_STATIC)"

definition isFixed :: "position_sticky \<Rightarrow> bool" where
  "isFixed s = (posScheme s = POS_SCHEME_FIXED)"

definition isAbsolute :: "position_sticky \<Rightarrow> bool" where
  "isAbsolute s = (posScheme s = POS_SCHEME_ABSOLUTE)"

definition getStickyDistanceFromDocumentTop :: "layout \<Rightarrow> position_sticky \<Rightarrow> real" where
  "getStickyDistanceFromDocumentTop env s =
     (let elementTop = (if isStatic s then stickyRectTop env else placeholderRectTop env);
          totalOffsetTop = latestKnownScrollY s + elementTop
      in totalOffsetTop)"

definition calcThreshold :: "layout \<Rightarrow> position_sticky \<Rightarrow> position_sticky" where
  "calcThreshold env s =
     s\<lparr>threshold := getStickyDistanceFromDocumentTop env s - offsetTop s\<rparr>"

definition setLeftPositionWhenAbsolute :: "layout \<Rightarrow> position_sticky \<Rightarrow> position_sticky" where
  "setLeftPositionWhenAbsolute env s =
     (let marginLeft = stickyMarginLeft env
      in s\<lparr>leftPositionWhenAbsolute := stickyOffsetLeft env - marginLeft\<rparr>)"

definition setLeftPositionWhenFixed :: "layout \<Rightarrow> position_sticky \<Rightarrow> position_sticky" where
  "setLeftPositionWhenFixed env s =
     (let marginLeft = stickyMarginLeft env
      in s\<lparr>leftPositionWhenFixed := pageXOffset env + stickyRectLeft env - marginLeft\<rparr>)"

text \<open>
  Modelled from the spec: \<^verbatim>\<open>Sticky.create\<close> and \<^verbatim>\<open>Sticky.refresh\<close> (module
  \<^verbatim>\<open>../src/Sticky\<close>, not in the source file). The spec gives the sticky element a
  cached static bounding box (width, height), re-measured on refresh.
\<close>

definition Sticky_create :: "layout \<Rightarrow> sticky" where
  "Sticky_create env =
     \<lparr> boundingBoxWidth = stickyRectWidth env, boundingBoxHeight = stickyRectHeight env \<rparr>"

definition Sticky_refresh :: "layout \<Rightarrow> position_sticky \<Rightarrow> position_sticky" where
  "Sticky_refresh env s = s\<lparr>sticky := Sticky_create env\<rparr>"

text \<open>
  Modelled from the spec: \<^verbatim>\<open>Placeholder.create\<close> and \<^verbatim>\<open>Placeholder.refresh\<close>
  (module \<^verbatim>\<open>../src/Placeholder\<close>, not in the source file). The spec: create
  allocates a flow node sized to the sticky element's static width and height, hidden
  by default; refresh re-measures and resizes to match the current static dimensions.
\<close>

definition Placeholder_refresh :: "position_sticky \<Rightarrow> position_sticky" where
  "Placeholder_refresh s =
     s\<lparr>doc :=
         setStyle PlaceholderElement ''height'' (Some (Px (boundingBoxHeight (sticky s))))
           (setStyle PlaceholderElement ''width'' (Some (Px (boundingBoxWidth (sticky s))))
              (doc s))\<rparr>"

definition Placeholder_create :: "position_sticky \<Rightarrow> position_sticky" where
  "Placeholder_create s =
     Placeholder_refresh
       (s\<lparr>doc := setStyle PlaceholderElement ''display'' (Some (Ident ''none'')) (doc s)\<rparr>)"

definition createPlaceholder :: "position_sticky \<Rightarrow> position_sticky" where
  "createPlaceholder s = Placeholder_create s"

definition makeStatic :: "position_sticky \<Rightarrow> position_sticky" where
  "makeStatic s =
     (let d1 = setStyle StickyElement ''position'' (Some (Ident ''static'')) (doc s);
          d2 = setStyle PlaceholderElement ''display'' (Some (Ident ''none'')) d1
      in s\<lparr>doc := d2, posScheme := POS_SCHEME_STATIC\<rparr>)"

definition makeFixed :: "position_sticky \<Rightarrow> position_sticky" where
  "makeFixed s =
     (let d1 = setStyle StickyElement ''bottom'' None (doc s);
          d2 = setStyle StickyElement ''position'' (Some (Ident ''fixed'')) d1;
          d3 = setStyle StickyElement ''top'' (Some (Px (offsetTop s))) d2;
          d4 = setStyle StickyElement ''left'' (Some (Px (leftPositionWhenFixed s))) d3;
          d5 = setStyle PlaceholderElement ''display'' (Some (Ident ''block'')) d4
      in s\<lparr>doc := d5, posScheme := POS_SCHEME_FIXED\<rparr>)"

definition makeAbsolute :: "position_sticky \<Rightarrow> position_sticky" where
  "makeAbsolute s =
     (let d1 = setStyle StickyElement ''top'' None (doc s);
          d2 = setStyle StickyElement ''position'' (Some (Ident ''absolute'')) d1;
          d3 = setStyle StickyElement ''bottom'' (Some (Px (paddingBottom (container s)))) d2;
          d4 = setStyle StickyElement ''left'' (Some (Px (leftPositionWhenAbsolute s))) d3;
          d5 = setStyle PlaceholderElement ''display'' (Some (Ident ''block'')) d4
      in s\<lparr>doc := d5, posScheme := POS_SCHEME_ABSOLUTE\<rparr>)"

definition isBelowThreshold :: "position_sticky \<Rightarrow> bool" where
  "isBelowThreshold s = (if latestKnownScrollY s < threshold s then True else False)"

definition getAvailableSpaceInContainer :: "layout \<Rightarrow> position_sticky \<Rightarrow> real" where
  "getAvailableSpaceInContainer env s = containerRectBottom env - offsetBottom s - offsetTop s"

definition canStickyFitInContainer :: "layout \<Rightarrow> position_sticky \<Rightarrow> bool" where
  "canStickyFitInContainer env s =
     (getAvailableSpaceInContainer env s \<ge> boundingBoxHeight (sticky s))"

definition update :: "layout \<Rightarrow> position_sticky \<Rightarrow> position_sticky" where
  "update env s0 =
     (let s = s0\<lparr>isTicking := False\<rparr>
      in if isBelowThreshold s then (if \<not> isStatic s then makeStatic s else s)
         else if canStickyFitInContainer env s then (if \<not> isFixed s then makeFixed s else s)
         else (if \<not> isAbsolute s then makeAbsolute s else s))"

text \<open>
  \<^verbatim>\<open>_onScroll\<close>: one scroll notification, with the page offset the window reports
  at that moment. \<^verbatim>\<open>rAF(this._update.bind(this))\<close> adds one callback to the queue.
\<close>

definition onScroll :: "layout \<Rightarrow> position_sticky \<Rightarrow> position_sticky" where
  "onScroll env s =
     (if \<not> isTicking s
      then s\<lparr>latestKnownScrollY := pageYOffset env,
             rafQueue := rafQueue s + 1,
             isTicking := True\<rparr>
      else s)"

text \<open>
  The host's frame: every callback queued so far runs once, in order. The number of
  \<^verbatim>\<open>_update\<close> invocations of the frame is the length of the queue.
\<close>

definition animationFrame :: "layout \<Rightarrow> position_sticky \<Rightarrow> position_sticky" where
  "animationFrame env s = ((update env) ^^ (rafQueue s)) (s\<lparr>rafQueue := 0\<rparr>)"

definition refresh :: "layout \<Rightarrow> position_sticky \<Rightarrow> position_sticky" where
  "refresh env s = Placeholder_refresh (Sticky_refresh env (calcThreshold env s))"

text \<open>
  \<^verbatim>\<open>_init\<close>: the constructor, from the measurements at construction time, the
  Container collaborator, the options and the document as it stands.
  \<^verbatim>\<open>_subscribeToWindowScroll\<close> registers \<open>onScroll\<close> with the window; from then on
  the host calls \<open>onScroll\<close> at every scroll notification.
\<close>

definition init :: "layout \<Rightarrow> container \<Rightarrow> options \<Rightarrow> document \<Rightarrow> position_sticky" where
  "init env c opts d =
     (let s0 = \<lparr> sticky = Sticky_create env, container = c,
                 posScheme = POS_SCHEME_STATIC, isTicking = False, threshold = 0,
                 options = opts, leftPositionWhenAbsolute = 0, leftPositionWhenFixed = 0,
                 latestKnownScrollY = pageYOffset env, offsetTop = 0, offsetBottom = 0,
                 doc = d, rafQueue = 0 \<rparr>;
          s1 = setOffsetTop s0;
          s2 = setOffsetBottom s1;
          s3 = calcThreshold env s2;
          s4 = setLeftPositionWhenAbsolute env s3;
          s5 = setLeftPositionWhenFixed env s4;
          s6 = createPlaceholder s5
      in s6)"

section \<open>The inline (legacy) variant\<close>

text \<open>
  An element with its \<^verbatim>\<open>offsetTop\<close> and its \<^verbatim>\<open>offsetParent\<close> (\<open>None\<close> for
  \<^verbatim>\<open>null\<close>): the chain the inline variant walks.
\<close>

datatype element = Element real "element option"

text \<open>
  The loop of \<^verbatim>\<open>getElementDistanceFromDocumentTop\<close>:
  \<^verbatim>\<open>do { totalOffsetTop = totalOffsetTop + element.offsetTop; }
  while (element = element.offsetParent);\<close>
\<close>

fun offsetChainTotal :: "real \<Rightarrow> element \<Rightarrow> real" where
  "offsetChainTotal totalOffsetTop (Element elOffsetTop None) = totalOffsetTop + elOffsetTop"
| "offsetChainTotal totalOffsetTop (Element elOffsetTop (Some parent)) =
     offsetChainTotal (totalOffsetTop + elOffsetTop) parent"

text \<open>
  The inline variant's instance. \<open>l_posScheme\<close> starts as \<^verbatim>\<open>null\<close> (\<open>None\<close>).
  The window's \<^verbatim>\<open>scrollY\<close> is the \<open>pageYOffset\<close> of the layout; the computed
  border and padding of the container, parsed by \<^verbatim>\<open>parseInt\<close>, come as a
  \<open>container\<close> record.
\<close>

record legacy_sticky =
  l_posScheme :: "nat option"
  l_isTicking :: bool
  l_threshold :: real
  l_options :: options
  l_latestKnownScrollY :: real
  l_offsetTop :: real
  l_offsetBottom :: real
  l_doc :: document
  l_rafQueue :: nat

definition legacy_validateContainerPosScheme :: "legacy_sticky \<Rightarrow> legacy_sticky" where
  "legacy_validateContainerPosScheme s =
     (let containerPosScheme = styleOf (l_doc s) ContainerElement ''position''
      in if containerPosScheme \<noteq> Some (Ident ''relative'')
            \<and> containerPosScheme \<noteq> Some (Ident ''absolute'')
         then s\<lparr>l_doc := setStyle ContainerElement ''position'' (Some (Ident ''relative'')) (l_doc s)\<rparr>
         else s)"

definition legacy_setOffsetTop :: "container \<Rightarrow> legacy_sticky \<Rightarrow> legacy_sticky" where
  "legacy_setOffsetTop computed s =
     (case opt_offsetTop (l_options s) of
        JSNumber n \<Rightarrow>
          if n \<ge> 0 then s\<lparr>l_offsetTop := n\<rparr>
          else s\<lparr>l_offsetTop := borderTopWidth computed + paddingTop computed\<rparr>
      | _ \<Rightarrow> s\<lparr>l_offsetTop := borderTopWidth computed + paddingTop computed\<rparr>)"

definition legacy_setOffsetBottom :: "container \<Rightarrow> legacy_sticky \<Rightarrow> legacy_sticky" where
  "legacy_setOffsetBottom computed s =
     s\<lparr>l_offsetBottom := borderBottomWidth computed + paddingBottom computed\<rparr>"

definition legacy_getElementDistanceFromDocumentTop ::
    "layout \<Rightarrow> element \<Rightarrow> legacy_sticky \<Rightarrow> real" where
  "legacy_getElementDistanceFromDocumentTop env el s =
     (if l_latestKnownScrollY s = 0 then stickyRectTop env
      else offsetChainTotal 0 el)"

definition legacy_calcThreshold :: "layout \<Rightarrow> element \<Rightarrow> legacy_sticky \<Rightarrow> legacy_sticky" where
  "legacy_calcThreshold env el s =
     s\<lparr>l_threshold := legacy_getElementDistanceFromDocumentTop env el s - l_offsetTop s\<rparr>"

definition legacy_createPlaceholder :: "layout \<Rightarrow> legacy_sticky \<Rightarrow> legacy_sticky" where
  "legacy_createPlaceholder env s =
     (let width = Px (stickyRectWidth env);
          height = Px (stickyRectHeight env);
          d1 = setStyle PlaceholderElement ''display'' (Some (Ident ''none'')) (l_doc s);
          d2 = setStyle PlaceholderElement ''width'' (Some width) d1;
          d3 = setStyle PlaceholderElement ''height'' (Some height) d2;
          d4 = setStyle StickyElement ''width'' (Some width) d3
      in s\<lparr>l_doc := d4\<rparr>)"

definition legacy_onScroll :: "layout \<Rightarrow> legacy_sticky \<Rightarrow> legacy_sticky" where
  "legacy_onScroll env s =
     (if \<not> l_isTicking s
      then s\<lparr>l_latestKnownScrollY := pageYOffset env,
             l_rafQueue := l_rafQueue s + 1,
             l_isTicking := True\<rparr>
      else s)"

definition legacy_isStatic :: "legacy_sticky \<Rightarrow> bool" where
  "legacy_isStatic s = (l_posScheme s = Some POS_SCHEME_STATIC)"

definition legacy_makeStatic :: "legacy_sticky \<Rightarrow> legacy_sticky" where
  "legacy_makeStatic s =
     (let d1 = setStyle StickyElement ''position'' (Some (Ident ''static'')) (l_doc s);
          d2 = setStyle PlaceholderElement ''display'' (Some (Ident ''none'')) d1
      in s\<lparr>l_doc := d2, l_posScheme := Some POS_SCHEME_STATIC\<rparr>)"

definition legacy_isFixed :: "legacy_sticky \<Rightarrow> bool" where
  "legacy_isFixed s = (l_posScheme s = Some POS_SCHEME_FIXED)"

definition legacy_makeFixed :: "legacy_sticky \<Rightarrow> legacy_sticky" where
  "legacy_makeFixed s =
     (let d1 = setStyle StickyElement ''bottom'' None (l_doc s);
          d2 = setStyle StickyElement ''position'' (Some (Ident ''fixed'')) d1;
          d3 = setStyle StickyElement ''top'' (Some (Px (l_offsetTop s))) d2;
          d4 = setStyle PlaceholderElement ''display'' (Some (Ident ''block'')) d3
      in s\<lparr>l_doc := d4, l_posScheme := Some POS_SCHEME_FIXED\<rparr>)"

definition legacy_isAbsolute :: "legacy_sticky \<Rightarrow> bool" where
  "legacy_isAbsolute s = (l_posScheme s = Some POS_SCHEME_ABSOLUTE)"

definition legacy_makeAbsolute :: "legacy_sticky \<Rightarrow> legacy_sticky" where
  "legacy_makeAbsolute s =
     (let d1 = setStyle StickyElement ''top'' None (l_doc s);
          d2 = setStyle StickyElement ''position'' (Some (Ident ''absolute'')) d1;
          d3 = setStyle StickyElement ''bottom'' (Some (Px (l_offsetBottom s))) d2;
          d4 = setStyle PlaceholderElement ''display'' (Some (Ident ''block'')) d3
      in s\<lparr>l_doc := d4, l_posScheme := Some POS_SCHEME_ABSOLUTE\<rparr>)"

definition legacy_isBelowThreshold :: "legacy_sticky \<Rightarrow> bool" where
  "legacy_isBelowThreshold s = (if l_latestKnownScrollY s < l_threshold s then True else False)"

definition legacy_getAvailableSpaceInContainer :: "layout \<Rightarrow> legacy_sticky \<Rightarrow> real" where
  "legacy_getAvailableSpaceInContainer env s =
     containerRectBottom env - l_offsetBottom s - l_offsetTop s"

definition legacy_canStickyFitInContainer :: "layout \<Rightarrow> legacy_sticky \<Rightarrow> bool" where
  "legacy_canStickyFitInContainer env s =
     (legacy_getAvailableSpaceInContainer env s \<ge> stickyRectHeight env)"

definition legacy_update :: "layout \<Rightarrow> legacy_sticky \<Rightarrow> legacy_sticky" where
  "legacy_update env s0 =
     (let s = s0\<lparr>l_isTicking := False\<rparr>
      in if legacy_isBelowThreshold s then (if \<not> legacy_isStatic s then legacy_makeStatic s else s)
         else if legacy_canStickyFitInContainer env s
           then (if \<not> legacy_isFixed s then legacy_makeFixed s else s)
         else (if \<not> legacy_isAbsolute s then legacy_makeAbsolute s else s))"

definition legacy_animationFrame :: "layout \<Rightarrow> legacy_sticky \<Rightarrow> legacy_sticky" where
  "legacy_animationFrame env s = ((legacy_update env) ^^ (l_rafQueue s)) (s\<lparr>l_rafQueue := 0\<rparr>)"

definition legacy_init ::
    "layout \<Rightarrow> element \<Rightarrow> container \<Rightarrow> options \<Rightarrow> document \<Rightarrow> legacy_sticky" where
  "legacy_init env el computed opts d =
     (let s0 = \<lparr> l_posScheme = None, l_isTicking = False, l_threshold = 0,
                 l_options = opts, l_latestKnownScrollY = pageYOffset env,
                 l_offsetTop = 0, l_offsetBottom = 0, l_doc = d, l_rafQueue = 0 \<rparr>;
          s1 = legacy_validateContainerPosScheme s0;
          s2 = legacy_setOffsetTop computed s1;
          s3 = legacy_setOffsetBottom computed s2;
          s4 = legacy_calcThreshold env el s3;
          s5 = legacy_createPlaceholder env s4
      in s5)"

section \<open>A worked configuration\<close>

text \<open>
  A container with a 1px/2px border and 4px/5px padding (top/bottom), a sticky element
  100px high whose top edge is 50px below the top of the unscrolled document, and a
  document with no inline styles.
\<close>

definition example_container :: container where
  "example_container =
     \<lparr> borderTopWidth = 1, borderBottomWidth = 2, paddingTop = 4, paddingBottom = 5 \<rparr>"

definition example_layout :: layout where
  "example_layout =
     \<lparr> pageYOffset = 0, pageXOffset = 0, stickyRectTop = 50, stickyRectLeft = 20,
       stickyRectWidth = 200, stickyRectHeight = 100, stickyOffsetLeft = 12,
       stickyMarginLeft = 3, placeholderRectTop = 50, containerRectBottom = 300 \<rparr>"

definition example_options :: options where
  "example_options = \<lparr> opt_offsetTop = JSUndefined \<rparr>"

definition empty_document :: document where
  "empty_document = \<lparr> styleOf = (\<lambda>n. Map.empty), writes = [] \<rparr>"

definition example_instance :: position_sticky where
  "example_instance = init example_layout example_container example_options empty_document"

text \<open>The same page scrolled to offset \<open>y\<close>: every viewport-relative reading moves up by \<open>y\<close>.\<close>

definition scrolledTo :: "real \<Rightarrow> layout" where
  "scrolledTo y =
     example_layout\<lparr> pageYOffset := y, stickyRectTop := 50 - y,
                     placeholderRectTop := 50 - y, containerRectBottom := 300 - y \<rparr>"

text \<open>
  The offset-parent chain of the example's element: 30px inside an offset parent that
  is 18px from the document top and has a 2px top border, which \<^verbatim>\<open>offsetTop\<close>
  does not count.
\<close>

definition example_element :: element where
  "example_element = Element 30 (Some (Element 18 None))"

definition example_legacy :: legacy_sticky where
  "example_legacy =
     legacy_init example_layout example_element example_container example_options empty_document"

section \<open>Runs of the modular variant\<close>

text \<open>
  What can happen to an instance after construction: a scroll notification, a frame of
  the host, or a call of the public \<^verbatim>\<open>refresh\<close>; each comes with the layout of
  that moment.
\<close>

datatype event = Scroll layout | Frame layout | Refresh layout

fun step :: "event \<Rightarrow> position_sticky \<Rightarrow> position_sticky" where
  "step (Scroll env) s = onScroll env s"
| "step (Frame env) s = animationFrame env s"
| "step (Refresh env) s = refresh env s"

text \<open>
  The placeholder takes part in the flow unless its \<^verbatim>\<open>display\<close> is
  \<^verbatim>\<open>none\<close>.
\<close>

definition placeholderShown :: "position_sticky \<Rightarrow> bool" where
  "placeholderShown s =
     (styleOf (doc s) PlaceholderElement ''display'' \<noteq> Some (Ident ''none''))"

definition schemeInvariant :: "position_sticky \<Rightarrow> bool" where
  "schemeInvariant s =
     ((posScheme s = POS_SCHEME_STATIC
         \<and> styleOf (doc s) PlaceholderElement ''display'' = Some (Ident ''none''))
      \<or> (posScheme s = POS_SCHEME_FIXED
         \<and> styleOf (doc s) PlaceholderElement ''display'' = Some (Ident ''block''))
      \<or> (posScheme s = POS_SCHEME_ABSOLUTE
         \<and> styleOf (doc s) PlaceholderElement ''display'' = Some (Ident ''block'')))"

section \<open>The distance from the document top, in the specification's words\<close>

text \<open>
  The specification's \<^verbatim>\<open>distanceFromDocumentTop\<close>: the current scroll offset
  plus the element's viewport-relative top when the scroll offset is non-zero, the sum
  over the offset-parent chain when it is exactly zero.
\<close>

definition spec_distanceFromDocumentTop :: "real \<Rightarrow> real \<Rightarrow> element \<Rightarrow> real" where
  "spec_distanceFromDocumentTop scrollOffset viewportTop el =
     (if scrollOffset \<noteq> 0 then scrollOffset + viewportTop else offsetChainTotal 0 el)"

section \<open>Unfolding rules\<close>

lemmas scheme_consts = POS_SCHEME_STATIC_def POS_SCHEME_FIXED_def POS_SCHEME_ABSOLUTE_def

lemmas update_defs =
  update_def isBelowThreshold_def canStickyFitInContainer_def getAvailableSpaceInContainer_def
  isStatic_def isFixed_def isAbsolute_def makeStatic_def makeFixed_def makeAbsolute_def

lemmas legacy_update_defs =
  legacy_update_def legacy_isBelowThreshold_def legacy_canStickyFitInContainer_def
  legacy_getAvailableSpaceInContainer_def legacy_isStatic_def legacy_isFixed_def
  legacy_isAbsolute_def legacy_makeStatic_def legacy_makeFixed_def legacy_makeAbsolute_def

lemmas measure_defs =
  calcThreshold_def getStickyDistanceFromDocumentTop_def Sticky_create_def
  Placeholder_refresh_def

lemmas init_defs =
  init_def setOffsetTop_def setOffsetBottom_def setLeftPositionWhenAbsolute_def
  setLeftPositionWhenFixed_def createPlaceholder_def Placeholder_create_def measure_defs

lemmas legacy_init_defs =
  legacy_init_def legacy_validateContainerPosScheme_def legacy_setOffsetTop_def
  legacy_setOffsetBottom_def legacy_calcThreshold_def
  legacy_getElementDistanceFromDocumentTop_def legacy_createPlaceholder_def

lemmas refresh_defs = refresh_def Sticky_refresh_def

lemmas example_defs =
  example_instance_def example_layout_def example_container_def example_options_def
  empty_document_def scrolledTo_def example_legacy_def example_element_def


section \<open>Evaluation\<close>

lemma update_unfold:
  "update env s =
     (if latestKnownScrollY s < threshold s
      then (if posScheme s = POS_SCHEME_STATIC then s\<lparr>isTicking := False\<rparr>
            else makeStatic (s\<lparr>isTicking := False\<rparr>))
      else if boundingBoxHeight (sticky s) \<le> containerRectBottom env - offsetBottom s - offsetTop s
      then (if posScheme s = POS_SCHEME_FIXED then s\<lparr>isTicking := False\<rparr>
            else makeFixed (s\<lparr>isTicking := False\<rparr>))
      else (if posScheme s = POS_SCHEME_ABSOLUTE then s\<lparr>isTicking := False\<rparr>
            else makeAbsolute (s\<lparr>isTicking := False\<rparr>)))"
  by (simp add: update_def isBelowThreshold_def canStickyFitInContainer_def
      getAvailableSpaceInContainer_def isStatic_def isFixed_def isAbsolute_def Let_def)

lemma posScheme_transitions:
  "posScheme (makeStatic s) = POS_SCHEME_STATIC"
  "posScheme (makeFixed s) = POS_SCHEME_FIXED"
  "posScheme (makeAbsolute s) = POS_SCHEME_ABSOLUTE"
  by (simp_all add: makeStatic_def makeFixed_def makeAbsolute_def Let_def)

lemma writes_transitions:
  "writes (doc (makeStatic s))
     = writes (doc s) @
       [(StickyElement, ''position'', Some (Ident ''static'')),
        (PlaceholderElement, ''display'', Some (Ident ''none''))]"
  "writes (doc (makeFixed s))
     = writes (doc s) @
       [(StickyElement, ''bottom'', None),
        (StickyElement, ''position'', Some (Ident ''fixed'')),
        (StickyElement, ''top'', Some (Px (offsetTop s))),
        (StickyElement, ''left'', Some (Px (leftPositionWhenFixed s))),
        (PlaceholderElement, ''display'', Some (Ident ''block''))]"
  "writes (doc (makeAbsolute s))
     = writes (doc s) @
       [(StickyElement, ''top'', None),
        (StickyElement, ''position'', Some (Ident ''absolute'')),
        (StickyElement, ''bottom'', Some (Px (paddingBottom (container s)))),
        (StickyElement, ''left'', Some (Px (leftPositionWhenAbsolute s))),
        (PlaceholderElement, ''display'', Some (Ident ''block''))]"
  by (simp_all add: makeStatic_def makeFixed_def makeAbsolute_def Let_def setStyle_def)

lemma scheme_distinct:
  "POS_SCHEME_STATIC \<noteq> POS_SCHEME_FIXED" "POS_SCHEME_STATIC \<noteq> POS_SCHEME_ABSOLUTE"
  "POS_SCHEME_FIXED \<noteq> POS_SCHEME_ABSOLUTE" "POS_SCHEME_FIXED \<noteq> POS_SCHEME_STATIC"
  "POS_SCHEME_ABSOLUTE \<noteq> POS_SCHEME_STATIC" "POS_SCHEME_ABSOLUTE \<noteq> POS_SCHEME_FIXED"
  by (simp_all add: scheme_consts)

lemma legacy_update_unfold:
  "legacy_update env s =
     (if l_latestKnownScrollY s < l_threshold s
      then (if l_posScheme s = Some POS_SCHEME_STATIC then s\<lparr>l_isTicking := False\<rparr>
            else legacy_makeStatic (s\<lparr>l_isTicking := False\<rparr>))
      else if stickyRectHeight env \<le> containerRectBottom env - l_offsetBottom s - l_offsetTop s
      then (if l_posScheme s = Some POS_SCHEME_FIXED then s\<lparr>l_isTicking := False\<rparr>
            else legacy_makeFixed (s\<lparr>l_isTicking := False\<rparr>))
      else (if l_posScheme s = Some POS_SCHEME_ABSOLUTE then s\<lparr>l_isTicking := False\<rparr>
            else legacy_makeAbsolute (s\<lparr>l_isTicking := False\<rparr>)))"
  by (simp add: legacy_update_def legacy_isBelowThreshold_def legacy_canStickyFitInContainer_def
      legacy_getAvailableSpaceInContainer_def legacy_isStatic_def legacy_isFixed_def legacy_isAbsolute_def Let_def)

lemma legacy_posScheme_transitions:
  "l_posScheme (legacy_makeStatic s) = Some POS_SCHEME_STATIC"
  "l_posScheme (legacy_makeFixed s) = Some POS_SCHEME_FIXED"
  "l_posScheme (legacy_makeAbsolute s) = Some POS_SCHEME_ABSOLUTE"
  by (simp_all add: legacy_makeStatic_def legacy_makeFixed_def legacy_makeAbsolute_def Let_def)

lemma legacy_writes_transitions:
  "writes (l_doc (legacy_makeStatic s))
     = writes (l_doc s) @
       [(StickyElement, ''position'', Some (Ident ''static'')),
        (PlaceholderElement, ''display'', Some (Ident ''none''))]"
  "writes (l_doc (legacy_makeFixed s))
     = writes (l_doc s) @
       [(StickyElement, ''bottom'', None),
        (StickyElement, ''position'', Some (Ident ''fixed'')),
        (StickyElement, ''top'', Some (Px (l_offsetTop s))),
        (PlaceholderElement, ''display'', Some (Ident ''block''))]"
  "writes (l_doc (legacy_makeAbsolute s))
     = writes (l_doc s) @
       [(StickyElement, ''top'', None),
        (StickyElement, ''position'', Some (Ident ''absolute'')),
        (StickyElement, ''bottom'', Some (Px (l_offsetBottom s))),
        (PlaceholderElement, ''display'', Some (Ident ''block''))]"
  by (simp_all add: legacy_makeStatic_def legacy_makeFixed_def legacy_makeAbsolute_def Let_def setStyle_def)

text \<open>
  C1. Every evaluation (\<^verbatim>\<open>_update\<close>, and \<^verbatim>\<open>update\<close> of the inline variant):
  a latest known scroll offset strictly below the threshold gives Static; otherwise,
  when the container's bounding-rect bottom minus offsetBottom minus offsetTop is at
  least the element's height, Fixed; otherwise Absolute. When the resulting scheme is
  the current one, the evaluation only clears the pending flag and writes no style.
  When it differs, the evaluation is exactly the transition to the resulting scheme,
  applied after clearing the pending flag, and the style writes of that transition are
  appended to the trace.
\<close>

theorem update_chooses_scheme:
  "((latestKnownScrollY s < threshold s \<longrightarrow> posScheme (update env s) = POS_SCHEME_STATIC) \<and>
   (\<not> latestKnownScrollY s < threshold s \<and>
      containerRectBottom env - offsetBottom s - offsetTop s \<ge> boundingBoxHeight (sticky s)
        \<longrightarrow> posScheme (update env s) = POS_SCHEME_FIXED) \<and>
   (\<not> latestKnownScrollY s < threshold s \<and>
      \<not> containerRectBottom env - offsetBottom s - offsetTop s \<ge> boundingBoxHeight (sticky s)
        \<longrightarrow> posScheme (update env s) = POS_SCHEME_ABSOLUTE) \<and>
   (posScheme (update env s) = posScheme s \<longrightarrow>
      doc (update env s) = doc s \<and> update env s = s\<lparr>isTicking := False\<rparr>) \<and>
   (posScheme (update env s) \<noteq> posScheme s \<and> posScheme (update env s) = POS_SCHEME_STATIC
        \<longrightarrow> update env s = makeStatic (s\<lparr>isTicking := False\<rparr>) \<and>
            writes (doc (update env s))
              = writes (doc s) @
                [(StickyElement, ''position'', Some (Ident ''static'')),
                 (PlaceholderElement, ''display'', Some (Ident ''none''))]) \<and>
   (posScheme (update env s) \<noteq> posScheme s \<and> posScheme (update env s) = POS_SCHEME_FIXED
        \<longrightarrow> update env s = makeFixed (s\<lparr>isTicking := False\<rparr>) \<and>
            writes (doc (update env s))
              = writes (doc s) @
                [(StickyElement, ''bottom'', None),
                 (StickyElement, ''position'', Some (Ident ''fixed'')),
                 (StickyElement, ''top'', Some (Px (offsetTop s))),
                 (StickyElement, ''left'', Some (Px (leftPositionWhenFixed s))),
                 (PlaceholderElement, ''display'', Some (Ident ''block''))]) \<and>
   (posScheme (update env s) \<noteq> posScheme s \<and> posScheme (update env s) = POS_SCHEME_ABSOLUTE
        \<longrightarrow> update env s = makeAbsolute (s\<lparr>isTicking := False\<rparr>) \<and>
            writes (doc (update env s))
              = writes (doc s) @
                [(StickyElement, ''top'', None),
                 (StickyElement, ''position'', Some (Ident ''absolute'')),
                 (StickyElement, ''bottom'', Some (Px (paddingBottom (container s)))),
                 (StickyElement, ''left'', Some (Px (leftPositionWhenAbsolute s))),
                 (PlaceholderElement, ''display'', Some (Ident ''block''))])) \<and>
   ((l_latestKnownScrollY t < l_threshold t
        \<longrightarrow> l_posScheme (legacy_update env t) = Some POS_SCHEME_STATIC) \<and>
   (\<not> l_latestKnownScrollY t < l_threshold t \<and>
      containerRectBottom env - l_offsetBottom t - l_offsetTop t \<ge> stickyRectHeight env
        \<longrightarrow> l_posScheme (legacy_update env t) = Some POS_SCHEME_FIXED) \<and>
   (\<not> l_latestKnownScrollY t < l_threshold t \<and>
      \<not> containerRectBottom env - l_offsetBottom t - l_offsetTop t \<ge> stickyRectHeight env
        \<longrightarrow> l_posScheme (legacy_update env t) = Some POS_SCHEME_ABSOLUTE) \<and>
   (l_posScheme (legacy_update env t) = l_posScheme t \<longrightarrow>
      l_doc (legacy_update env t) = l_doc t \<and>
      legacy_update env t = t\<lparr>l_isTicking := False\<rparr>) \<and>
   (l_posScheme (legacy_update env t) \<noteq> l_posScheme t
      \<and> l_posScheme (legacy_update env t) = Some POS_SCHEME_STATIC
        \<longrightarrow> legacy_update env t = legacy_makeStatic (t\<lparr>l_isTicking := False\<rparr>) \<and>
            writes (l_doc (legacy_update env t))
              = writes (l_doc t) @
                [(StickyElement, ''position'', Some (Ident ''static'')),
                 (PlaceholderElement, ''display'', Some (Ident ''none''))]) \<and>
   (l_posScheme (legacy_update env t) \<noteq> l_posScheme t
      \<and> l_posScheme (legacy_update env t) = Some POS_SCHEME_FIXED
        \<longrightarrow> legacy_update env t = legacy_makeFixed (t\<lparr>l_isTicking := False\<rparr>) \<and>
            writes (l_doc (legacy_update env t))
              = writes (l_doc t) @
                [(StickyElement, ''bottom'', None),
                 (StickyElement, ''position'', Some (Ident ''fixed'')),
                 (StickyElement, ''top'', Some (Px (l_offsetTop t))),
                 (PlaceholderElement, ''display'', Some (Ident ''block''))]) \<and>
   (l_posScheme (legacy_update env t) \<noteq> l_posScheme t
      \<and> l_posScheme (legacy_update env t) = Some POS_SCHEME_ABSOLUTE
        \<longrightarrow> legacy_update env t = legacy_makeAbsolute (t\<lparr>l_isTicking := False\<rparr>) \<and>
            writes (l_doc (legacy_update env t))
              = writes (l_doc t) @
                [(StickyElement, ''top'', None),
                 (StickyElement, ''position'', Some (Ident ''absolute'')),
                 (StickyElement, ''bottom'', Some (Px (l_offsetBottom t))),
                 (PlaceholderElement, ''display'', Some (Ident ''block''))]))"
  (is "?modular \<and> ?inline")
proof (rule conjI)
  show ?modular
  proof -
    let ?s' = "s\<lparr>isTicking := False\<rparr>"
    consider
      (keep) "update env s = ?s'"
        "latestKnownScrollY s < threshold s \<longrightarrow> posScheme s = POS_SCHEME_STATIC"
        "\<not> latestKnownScrollY s < threshold s \<and>
          containerRectBottom env - offsetBottom s - offsetTop s \<ge> boundingBoxHeight (sticky s)
            \<longrightarrow> posScheme s = POS_SCHEME_FIXED"
        "\<not> latestKnownScrollY s < threshold s \<and>
          \<not> containerRectBottom env - offsetBottom s - offsetTop s \<ge> boundingBoxHeight (sticky s)
            \<longrightarrow> posScheme s = POS_SCHEME_ABSOLUTE"
    | (static) "update env s = makeStatic ?s'" "latestKnownScrollY s < threshold s"
        "posScheme s \<noteq> POS_SCHEME_STATIC"
    | (fixed) "update env s = makeFixed ?s'" "\<not> latestKnownScrollY s < threshold s"
        "containerRectBottom env - offsetBottom s - offsetTop s \<ge> boundingBoxHeight (sticky s)"
        "posScheme s \<noteq> POS_SCHEME_FIXED"
    | (absolute) "update env s = makeAbsolute ?s'" "\<not> latestKnownScrollY s < threshold s"
        "\<not> containerRectBottom env - offsetBottom s - offsetTop s \<ge> boundingBoxHeight (sticky s)"
        "posScheme s \<noteq> POS_SCHEME_ABSOLUTE"
      unfolding update_unfold by (auto split: if_splits)
    then show ?thesis
    proof cases
      case keep
      show ?thesis unfolding keep(1) using keep(2-4) by auto
    next
      case static
      show ?thesis unfolding static(1) using static(2-3)
        by (auto simp add: posScheme_transitions writes_transitions scheme_distinct)
    next
      case fixed
      show ?thesis unfolding fixed(1) using fixed(2-4)
        by (auto simp add: posScheme_transitions writes_transitions scheme_distinct)
    next
      case absolute
      show ?thesis unfolding absolute(1) using absolute(2-4)
        by (auto simp add: posScheme_transitions writes_transitions scheme_distinct)
    qed
  qed
  show ?inline
  proof -
    let ?t' = "t\<lparr>l_isTicking := False\<rparr>"
    consider
      (keep) "legacy_update env t = ?t'"
        "l_latestKnownScrollY t < l_threshold t \<longrightarrow> l_posScheme t = Some POS_SCHEME_STATIC"
        "\<not> l_latestKnownScrollY t < l_threshold t \<and>
          containerRectBottom env - l_offsetBottom t - l_offsetTop t \<ge> stickyRectHeight env
            \<longrightarrow> l_posScheme t = Some POS_SCHEME_FIXED"
        "\<not> l_latestKnownScrollY t < l_threshold t \<and>
          \<not> containerRectBottom env - l_offsetBottom t - l_offsetTop t \<ge> stickyRectHeight env
            \<longrightarrow> l_posScheme t = Some POS_SCHEME_ABSOLUTE"
    | (static) "legacy_update env t = legacy_makeStatic ?t'" "l_latestKnownScrollY t < l_threshold t"
        "l_posScheme t \<noteq> Some POS_SCHEME_STATIC"
    | (fixed) "legacy_update env t = legacy_makeFixed ?t'" "\<not> l_latestKnownScrollY t < l_threshold t"
        "containerRectBottom env - l_offsetBottom t - l_offsetTop t \<ge> stickyRectHeight env"
        "l_posScheme t \<noteq> Some POS_SCHEME_FIXED"
    | (absolute) "legacy_update env t = legacy_makeAbsolute ?t'" "\<not> l_latestKnownScrollY t < l_threshold t"
        "\<not> containerRectBottom env - l_offsetBottom t - l_offsetTop t \<ge> stickyRectHeight env"
        "l_posScheme t \<noteq> Some POS_SCHEME_ABSOLUTE"
      unfolding legacy_update_unfold by (auto split: if_splits)
    then show ?thesis
    proof cases
      case keep
      show ?thesis unfolding keep(1) using keep(2-4) by auto
    next
      case static
      show ?thesis unfolding static(1) using static(2-3)
        by (auto simp add: legacy_posScheme_transitions legacy_writes_transitions scheme_distinct)
    next
      case fixed
      show ?thesis unfolding fixed(1) using fixed(2-4)
        by (auto simp add: legacy_posScheme_transitions legacy_writes_transitions scheme_distinct)
    next
      case absolute
      show ?thesis unfolding absolute(1) using absolute(2-4)
        by (auto simp add: legacy_posScheme_transitions legacy_writes_transitions scheme_distinct)
    qed
  qed
qed

theorem update_chooses_scheme_witness:
  "latestKnownScrollY example_instance < threshold example_instance \<and>
   posScheme (update example_layout example_instance) = POS_SCHEME_STATIC \<and>
   doc (update example_layout example_instance) = doc example_instance \<and>
   posScheme (update (scrolledTo 60) (onScroll (scrolledTo 60) example_instance))
     = POS_SCHEME_FIXED \<and>
   writes (doc (update (scrolledTo 60) (onScroll (scrolledTo 60) example_instance)))
     = writes (doc example_instance) @
       [(StickyElement, ''bottom'', None),
        (StickyElement, ''position'', Some (Ident ''fixed'')),
        (StickyElement, ''top'', Some (Px 5)),
        (StickyElement, ''left'', Some (Px 17)),
        (PlaceholderElement, ''display'', Some (Ident ''block''))] \<and>
   posScheme (update (scrolledTo 200) (onScroll (scrolledTo 200) example_instance))
     = POS_SCHEME_ABSOLUTE \<and>
   writes (doc (update (scrolledTo 200) (onScroll (scrolledTo 200) example_instance)))
     = writes (doc example_instance) @
       [(StickyElement, ''top'', None),
        (StickyElement, ''position'', Some (Ident ''absolute'')),
        (StickyElement, ''bottom'', Some (Px 5)),
        (StickyElement, ''left'', Some (Px 9)),
        (PlaceholderElement, ''display'', Some (Ident ''block''))] \<and>
   update (scrolledTo 10) (makeFixed (example_instance\<lparr>latestKnownScrollY := 10\<rparr>))
     = makeStatic (makeFixed (example_instance\<lparr>latestKnownScrollY := 10\<rparr>)
         \<lparr>isTicking := False\<rparr>) \<and>
   l_posScheme (legacy_update example_layout example_legacy) = Some POS_SCHEME_STATIC \<and>
   writes (l_doc (legacy_update example_layout example_legacy))
     = writes (l_doc example_legacy) @
       [(StickyElement, ''position'', Some (Ident ''static'')),
        (PlaceholderElement, ''display'', Some (Ident ''none''))] \<and>
   l_posScheme (legacy_update (scrolledTo 60) (legacy_onScroll (scrolledTo 60) example_legacy))
     = Some POS_SCHEME_FIXED \<and>
   l_posScheme (legacy_update (scrolledTo 200) (legacy_onScroll (scrolledTo 200) example_legacy))
     = Some POS_SCHEME_ABSOLUTE \<and>
   legacy_update (scrolledTo 10) (legacy_makeStatic example_legacy)
     = (legacy_makeStatic example_legacy)\<lparr>l_isTicking := False\<rparr>"
proof -
  let ?s60 = "onScroll (scrolledTo 60) example_instance"
  let ?s200 = "onScroll (scrolledTo 200) example_instance"
  let ?fixed10 = "makeFixed (example_instance\<lparr>latestKnownScrollY := 10\<rparr>)"
  let ?t60 = "legacy_onScroll (scrolledTo 60) example_legacy"
  let ?t200 = "legacy_onScroll (scrolledTo 200) example_legacy"
  let ?kept = "legacy_makeStatic example_legacy"
  have s0: "latestKnownScrollY example_instance < threshold example_instance"
    "posScheme example_instance = POS_SCHEME_STATIC"
    by (simp_all add: example_defs init_defs isStatic_def Let_def)
  have s60: "\<not> latestKnownScrollY ?s60 < threshold ?s60"
    "boundingBoxHeight (sticky ?s60)
       \<le> containerRectBottom (scrolledTo 60) - offsetBottom ?s60 - offsetTop ?s60"
    "posScheme ?s60 = POS_SCHEME_STATIC" "offsetTop ?s60 = 5" "leftPositionWhenFixed ?s60 = 17"
    "doc ?s60 = doc example_instance"
    by (simp_all add: example_defs init_defs onScroll_def isStatic_def Let_def)
  have s200: "\<not> latestKnownScrollY ?s200 < threshold ?s200"
    "\<not> boundingBoxHeight (sticky ?s200)
       \<le> containerRectBottom (scrolledTo 200) - offsetBottom ?s200 - offsetTop ?s200"
    "posScheme ?s200 = POS_SCHEME_STATIC" "paddingBottom (container ?s200) = 5"
    "leftPositionWhenAbsolute ?s200 = 9" "doc ?s200 = doc example_instance"
    by (simp_all add: example_defs init_defs onScroll_def isStatic_def Let_def)
  have returned: "latestKnownScrollY ?fixed10 < threshold ?fixed10" "posScheme ?fixed10 = POS_SCHEME_FIXED"
    by (simp_all add: example_defs init_defs makeFixed_def isStatic_def Let_def)
  have t0: "l_latestKnownScrollY example_legacy < l_threshold example_legacy"
    "l_posScheme example_legacy = None"
    by (simp_all add: example_defs legacy_init_defs Let_def)
  have t60: "\<not> l_latestKnownScrollY ?t60 < l_threshold ?t60"
    "stickyRectHeight (scrolledTo 60)
       \<le> containerRectBottom (scrolledTo 60) - l_offsetBottom ?t60 - l_offsetTop ?t60"
    by (simp_all add: example_defs legacy_init_defs legacy_onScroll_def Let_def)
  have t200: "\<not> l_latestKnownScrollY ?t200 < l_threshold ?t200"
    "\<not> stickyRectHeight (scrolledTo 200)
       \<le> containerRectBottom (scrolledTo 200) - l_offsetBottom ?t200 - l_offsetTop ?t200"
    by (simp_all add: example_defs legacy_init_defs legacy_onScroll_def Let_def)
  have kept: "l_latestKnownScrollY ?kept < l_threshold ?kept"
    "l_posScheme ?kept = Some POS_SCHEME_STATIC"
    by (simp_all add: example_defs legacy_init_defs legacy_makeStatic_def Let_def)
  have first: "posScheme (update example_layout example_instance) = POS_SCHEME_STATIC \<and>
      doc (update example_layout example_instance) = doc example_instance \<and>
      l_posScheme (legacy_update example_layout example_legacy) = Some POS_SCHEME_STATIC \<and>
      writes (l_doc (legacy_update example_layout example_legacy))
        = writes (l_doc example_legacy) @
          [(StickyElement, ''position'', Some (Ident ''static'')),
           (PlaceholderElement, ''display'', Some (Ident ''none''))]"
    using update_chooses_scheme [of example_instance example_layout example_legacy] s0 t0
    by simp
  have second: "posScheme (update (scrolledTo 60) ?s60) = POS_SCHEME_FIXED \<and>
      writes (doc (update (scrolledTo 60) ?s60))
        = writes (doc example_instance) @
          [(StickyElement, ''bottom'', None),
           (StickyElement, ''position'', Some (Ident ''fixed'')),
           (StickyElement, ''top'', Some (Px 5)),
           (StickyElement, ''left'', Some (Px 17)),
           (PlaceholderElement, ''display'', Some (Ident ''block''))] \<and>
      l_posScheme (legacy_update (scrolledTo 60) ?t60) = Some POS_SCHEME_FIXED"
    using update_chooses_scheme [of ?s60 "scrolledTo 60" ?t60] s60 t60
    by (simp add: scheme_distinct)
  have third: "posScheme (update (scrolledTo 200) ?s200) = POS_SCHEME_ABSOLUTE \<and>
      writes (doc (update (scrolledTo 200) ?s200))
        = writes (doc example_instance) @
          [(StickyElement, ''top'', None),
           (StickyElement, ''position'', Some (Ident ''absolute'')),
           (StickyElement, ''bottom'', Some (Px 5)),
           (StickyElement, ''left'', Some (Px 9)),
           (PlaceholderElement, ''display'', Some (Ident ''block''))] \<and>
      l_posScheme (legacy_update (scrolledTo 200) ?t200) = Some POS_SCHEME_ABSOLUTE"
    using update_chooses_scheme [of ?s200 "scrolledTo 200" ?t200] s200 t200
    by (simp add: scheme_distinct)
  have fourth: "update (scrolledTo 10) ?fixed10 = makeStatic (?fixed10\<lparr>isTicking := False\<rparr>) \<and>
      legacy_update (scrolledTo 10) ?kept = ?kept\<lparr>l_isTicking := False\<rparr>"
    using update_chooses_scheme [of ?fixed10 "scrolledTo 10" ?kept] returned kept
    by (simp add: scheme_distinct)
  from s0(1) first second third fourth show ?thesis
    by (simp only: simp_thms)
qed

section \<open>Boundaries and idempotence\<close>

text \<open>
  C5. The boundaries of the two comparisons of \<^verbatim>\<open>_update\<close>. With threshold \<open>T\<close>,
  the scroll offset \<open>T - 1\<close> gives Static and the offset \<open>T\<close> itself a scheme other
  than Static: the test \<^verbatim>\<open>_isBelowThreshold\<close> is strict. When the available space
  equals the element's height, \<^verbatim>\<open>_canStickyFitInContainer\<close> holds, so an evaluation
  at or past the threshold gives Fixed, not Absolute: the fit test is inclusive.
\<close>

theorem threshold_and_fit_boundaries:
  "posScheme (update env (s\<lparr>latestKnownScrollY := threshold s - 1\<rparr>)) = POS_SCHEME_STATIC \<and>
   posScheme (update env (s\<lparr>latestKnownScrollY := threshold s\<rparr>)) \<noteq> POS_SCHEME_STATIC \<and>
   (getAvailableSpaceInContainer env s = boundingBoxHeight (sticky s) \<longrightarrow>
      canStickyFitInContainer env s \<and>
      posScheme (update env (s\<lparr>latestKnownScrollY := threshold s\<rparr>)) = POS_SCHEME_FIXED \<and>
      (\<not> latestKnownScrollY s < threshold s \<longrightarrow> posScheme (update env s) = POS_SCHEME_FIXED))"
  by (simp add: update_defs scheme_consts Let_def)

theorem threshold_and_fit_boundaries_witness:
  "getAvailableSpaceInContainer (scrolledTo 188) example_instance
     = boundingBoxHeight (sticky example_instance) \<and>
   threshold example_instance = 45 \<and>
   posScheme (update (scrolledTo 188) (example_instance\<lparr>latestKnownScrollY := 44\<rparr>))
     = POS_SCHEME_STATIC \<and>
   posScheme (update (scrolledTo 188) (example_instance\<lparr>latestKnownScrollY := 45\<rparr>))
     = POS_SCHEME_FIXED \<and>
   posScheme (update (scrolledTo 188) (example_instance\<lparr>latestKnownScrollY := 188\<rparr>))
     = POS_SCHEME_FIXED"
  using threshold_and_fit_boundaries [of "scrolledTo 188" example_instance]
    threshold_and_fit_boundaries
      [of "scrolledTo 188" "example_instance\<lparr>latestKnownScrollY := 188\<rparr>"]
  by (simp add: example_defs init_defs update_defs scheme_consts Let_def setStyle_def)

text \<open>
  C7. Evaluation is idempotent: with the same layout, a second \<^verbatim>\<open>_update\<close> returns
  the state the first one returned, the trace of style writes included, so the second
  call writes no style. The same holds for the inline \<^verbatim>\<open>update\<close>.
\<close>

theorem update_idempotent:
  "update env (update env s) = update env s \<and>
   writes (doc (update env (update env s))) = writes (doc (update env s)) \<and>
   legacy_update env (legacy_update env t) = legacy_update env t \<and>
   writes (l_doc (legacy_update env (legacy_update env t))) = writes (l_doc (legacy_update env t))"
  by (simp add: update_defs legacy_update_defs scheme_consts Let_def)

section \<open>Scroll notifications\<close>

lemma fold_onScroll_ticking: "isTicking s \<Longrightarrow> fold onScroll envs s = s"
  by (induction envs) (simp_all add: onScroll_def)

lemma fold_legacy_onScroll_ticking: "l_isTicking t \<Longrightarrow> fold legacy_onScroll envs t = t"
  by (induction envs) (simp_all add: legacy_onScroll_def)

lemma fold_onScroll_first:
  "\<not> isTicking s \<Longrightarrow> fold onScroll (e # es) s = onScroll e s"
  by (simp add: fold_onScroll_ticking onScroll_def)

lemma fold_legacy_onScroll_first:
  "\<not> l_isTicking t \<Longrightarrow> fold legacy_onScroll (e # es) t = legacy_onScroll e t"
  by (simp add: fold_legacy_onScroll_ticking legacy_onScroll_def)

text \<open>
  Against C3 as the specification words it ("the most recent notification"): two
  notifications before the frame, at page offsets 10 and 20: one callback is queued,
  and the offset it will use is 10, the first one, not 20, the most recent.
\<close>

theorem onScroll_latest_counterexample:
  "rafQueue (fold onScroll [scrolledTo 10, scrolledTo 20] example_instance) = 1 \<and>
   latestKnownScrollY (fold onScroll [scrolledTo 10, scrolledTo 20] example_instance) = 10 \<and>
   pageYOffset (last [scrolledTo 10, scrolledTo 20]) = 20 \<and>
   latestKnownScrollY (fold onScroll [scrolledTo 10, scrolledTo 20] example_instance)
     \<noteq> pageYOffset (last [scrolledTo 10, scrolledTo 20]) \<and>
   l_latestKnownScrollY (fold legacy_onScroll [scrolledTo 10, scrolledTo 20] example_legacy)
     \<noteq> pageYOffset (last [scrolledTo 10, scrolledTo 20])"
  by (simp add: example_defs init_defs legacy_init_defs onScroll_def legacy_onScroll_def
      Let_def setStyle_def)

text \<open>
  C3, as the code has it. For \<open>N \<ge> 1\<close> scroll notifications reaching an idle instance (no
  evaluation pending, nothing queued) before the frame fires: exactly one callback is
  queued, so the frame invokes \<^verbatim>\<open>_update\<close> exactly once, and the scroll offset it
  uses is the one recorded at the first of the notifications; the later ones find the
  pending flag set and record nothing. The inline variant does the same.
\<close>

theorem onScroll_coalesces_to_first:
  assumes "envs \<noteq> []"
    and "\<not> isTicking s" and "rafQueue s = 0"
    and "\<not> l_isTicking t" and "l_rafQueue t = 0"
  shows "rafQueue (fold onScroll envs s) = 1 \<and>
         latestKnownScrollY (fold onScroll envs s) = pageYOffset (hd envs) \<and>
         animationFrame env (fold onScroll envs s)
           = update env (s\<lparr>latestKnownScrollY := pageYOffset (hd envs), isTicking := True\<rparr>) \<and>
         l_rafQueue (fold legacy_onScroll envs t) = 1 \<and>
         l_latestKnownScrollY (fold legacy_onScroll envs t) = pageYOffset (hd envs) \<and>
         legacy_animationFrame env (fold legacy_onScroll envs t)
           = legacy_update env
               (t\<lparr>l_latestKnownScrollY := pageYOffset (hd envs), l_isTicking := True\<rparr>)"
proof -
  from assms(1) obtain e es where envs: "envs = e # es"
    by (cases envs) auto
  have modular: "fold onScroll envs s = onScroll e s"
    unfolding envs using assms(2) by (rule fold_onScroll_first)
  have inline: "fold legacy_onScroll envs t = legacy_onScroll e t"
    unfolding envs using assms(4) by (rule fold_legacy_onScroll_first)
  show ?thesis
    unfolding modular inline using assms(2-5)
    by (cases s; cases t)
      (simp add: envs onScroll_def animationFrame_def legacy_onScroll_def
        legacy_animationFrame_def)
qed

theorem onScroll_coalesces_to_first_witness:
  "rafQueue (fold onScroll [scrolledTo 10, scrolledTo 20, scrolledTo 60] example_instance) = 1 \<and>
   latestKnownScrollY (fold onScroll [scrolledTo 10, scrolledTo 20, scrolledTo 60] example_instance)
     = 10 \<and>
   posScheme (animationFrame (scrolledTo 60)
      (fold onScroll [scrolledTo 10, scrolledTo 20, scrolledTo 60] example_instance))
     = POS_SCHEME_STATIC \<and>
   l_rafQueue (fold legacy_onScroll [scrolledTo 10, scrolledTo 20, scrolledTo 60] example_legacy)
     = 1 \<and>
   l_latestKnownScrollY
      (fold legacy_onScroll [scrolledTo 10, scrolledTo 20, scrolledTo 60] example_legacy) = 10"
proof -
  have nonempty: "[scrolledTo 10, scrolledTo 20, scrolledTo 60] \<noteq> []"
    by simp
  have idle: "\<not> isTicking example_instance" "rafQueue example_instance = 0"
    by (simp_all add: example_defs init_defs Let_def)
  have idle_legacy: "\<not> l_isTicking example_legacy" "l_rafQueue example_legacy = 0"
    by (simp_all add: example_defs legacy_init_defs Let_def)
  have first: "pageYOffset (hd [scrolledTo 10, scrolledTo 20, scrolledTo 60]) = 10"
    by (simp add: example_defs)
  have static: "posScheme (update (scrolledTo 60)
      (example_instance\<lparr>latestKnownScrollY := 10, isTicking := True\<rparr>)) = POS_SCHEME_STATIC"
    by (simp add: example_defs init_defs update_defs scheme_consts Let_def setStyle_def)
  show ?thesis
    using onScroll_coalesces_to_first [OF nonempty idle idle_legacy, of "scrolledTo 60"]
    by (simp only: first static simp_thms)
qed

section \<open>The threshold\<close>

text \<open>
  Against C2 as the specification words it: at scroll offset zero the modular variant's
  threshold is the viewport-relative top
  minus offsetTop (50 - 5), not the offset-parent chain sum minus offsetTop (48 - 5);
  and at a non-zero scroll offset the inline variant does not use the scroll offset
  plus the viewport-relative top.
\<close>

theorem threshold_spec_counterexample:
  "pageYOffset example_layout = 0 \<and>
   threshold example_instance = 45 \<and>
   spec_distanceFromDocumentTop (pageYOffset example_layout) (stickyRectTop example_layout)
      example_element - offsetTop example_instance = 43 \<and>
   threshold example_instance
     \<noteq> spec_distanceFromDocumentTop (pageYOffset example_layout) (stickyRectTop example_layout)
         example_element - offsetTop example_instance \<and>
   l_threshold (legacy_init (scrolledTo 60) example_element example_container example_options
       empty_document)
     \<noteq> spec_distanceFromDocumentTop (pageYOffset (scrolledTo 60)) (stickyRectTop (scrolledTo 60))
         example_element
       - l_offsetTop (legacy_init (scrolledTo 60) example_element example_container
           example_options empty_document)"
  by (simp add: example_defs init_defs legacy_init_defs spec_distanceFromDocumentTop_def
      isStatic_def Let_def setStyle_def)

text \<open>
  C2, as the code has it. At initialization, threshold = distance - offsetTop, where the
  distance is the scroll offset plus the element's viewport-relative top, for every
  scroll offset, zero included; the offset-parent chain is not read. On
  \<^verbatim>\<open>refresh\<close> the distance is the latest known scroll offset plus the
  viewport-relative top of the element when Static, of the placeholder otherwise. Only
  the inline variant walks the offset-parent chain, and it does so when the scroll
  offset is non-zero; at zero it takes the viewport-relative top.
\<close>

theorem threshold_is_scroll_plus_viewport_top:
  "threshold (init env c opts d)
     = pageYOffset env + stickyRectTop env - offsetTop (init env c opts d) \<and>
   threshold (refresh env s)
     = latestKnownScrollY s
       + (if isStatic s then stickyRectTop env else placeholderRectTop env) - offsetTop s \<and>
   l_threshold (legacy_init env el c opts d)
     = (if pageYOffset env = 0 then stickyRectTop env else offsetChainTotal 0 el)
       - l_offsetTop (legacy_init env el c opts d)"
  by (simp add: init_defs refresh_defs legacy_init_defs isStatic_def Let_def
      split: js_value.split)

section \<open>The transitions\<close>

text \<open>
  Against C4 as the specification words it (bottom = offsetBottom): at a container with
  a 2px bottom border and 5px bottom padding, offsetBottom is 7 and
  \<^verbatim>\<open>_makeAbsolute\<close> sets bottom to 5px, the container's paddingBottom. The rest
  holds: top cleared, position absolute, left = leftPositionWhenAbsolute, placeholder
  shown. The inline \<^verbatim>\<open>makeAbsolute\<close> sets bottom to offsetBottom.
\<close>

theorem makeAbsolute_bottom_at_example:
  "borderBottomWidth (container example_instance) = 2 \<and>
   paddingBottom (container example_instance) = 5 \<and>
   offsetBottom example_instance = 7 \<and>
   styleOf (doc (makeAbsolute example_instance)) StickyElement ''bottom'' = Some (Px 5) \<and>
   styleOf (doc (makeAbsolute example_instance)) StickyElement ''bottom''
     \<noteq> Some (Px (offsetBottom example_instance)) \<and>
   styleOf (doc (makeAbsolute example_instance)) StickyElement ''top'' = None \<and>
   styleOf (doc (makeAbsolute example_instance)) StickyElement ''position''
     = Some (Ident ''absolute'') \<and>
   styleOf (doc (makeAbsolute example_instance)) StickyElement ''left''
     = Some (Px (leftPositionWhenAbsolute example_instance)) \<and>
   styleOf (doc (makeAbsolute example_instance)) PlaceholderElement ''display''
     = Some (Ident ''block'') \<and>
   styleOf (l_doc (legacy_makeAbsolute example_legacy)) StickyElement ''bottom''
     = Some (Px (l_offsetBottom example_legacy))"
  by (simp add: example_defs init_defs legacy_init_defs makeAbsolute_def
      legacy_makeAbsolute_def isStatic_def Let_def setStyle_def)

lemma container_offsetBottom_update:
  "container (update env s) = container s \<and> offsetBottom (update env s) = offsetBottom s"
  by (simp add: update_defs Let_def)

lemma container_offsetBottom_funpow_update:
  "container ((update env ^^ n) s) = container s \<and>
   offsetBottom ((update env ^^ n) s) = offsetBottom s"
  by (induction n) (simp_all add: container_offsetBottom_update)

lemma container_offsetBottom_step:
  "container (step e s) = container s \<and> offsetBottom (step e s) = offsetBottom s"
proof (cases e)
  case (Scroll env)
  then show ?thesis by (simp add: onScroll_def)
next
  case (Frame env)
  then show ?thesis
    by (simp add: animationFrame_def container_offsetBottom_funpow_update)
next
  case (Refresh env)
  then show ?thesis by (simp add: refresh_defs measure_defs)
qed

lemma container_offsetBottom_run:
  "container (fold step evs s) = container s \<and> offsetBottom (fold step evs s) = offsetBottom s"
  by (induction evs arbitrary: s) (simp_all add: container_offsetBottom_step)

lemma container_offsetBottom_init:
  "container (init env c opts d) = c \<and>
   offsetBottom (init env c opts d) = borderBottomWidth c + paddingBottom c"
  by (simp add: init_defs Let_def split: js_value.split)

text \<open>
  C4, as the code has it. The transition to Absolute clears top first, then sets
  position to absolute, bottom to the container's paddingBottom, left to the cached
  leftPositionWhenAbsolute, and shows the placeholder. On every state reached from
  initialization offsetBottom is borderBottomWidth + paddingBottom, so the bottom
  written is offsetBottom minus the container's bottom border width. The inline
  \<^verbatim>\<open>makeAbsolute\<close> writes offsetBottom itself and leaves left alone.
\<close>

theorem makeAbsolute_writes_paddingBottom:
  "writes (doc (makeAbsolute s))
     = writes (doc s) @
       [(StickyElement, ''top'', None),
        (StickyElement, ''position'', Some (Ident ''absolute'')),
        (StickyElement, ''bottom'', Some (Px (paddingBottom (container s)))),
        (StickyElement, ''left'', Some (Px (leftPositionWhenAbsolute s))),
        (PlaceholderElement, ''display'', Some (Ident ''block''))] \<and>
   styleOf (doc (makeAbsolute s)) StickyElement ''top'' = None \<and>
   styleOf (doc (makeAbsolute s)) StickyElement ''position'' = Some (Ident ''absolute'') \<and>
   styleOf (doc (makeAbsolute s)) StickyElement ''bottom''
     = Some (Px (paddingBottom (container s))) \<and>
   styleOf (doc (makeAbsolute s)) StickyElement ''left''
     = Some (Px (leftPositionWhenAbsolute s)) \<and>
   styleOf (doc (makeAbsolute s)) PlaceholderElement ''display'' = Some (Ident ''block'') \<and>
   posScheme (makeAbsolute s) = POS_SCHEME_ABSOLUTE \<and>
   offsetBottom (fold step evs (init env c opts d)) = borderBottomWidth c + paddingBottom c \<and>
   styleOf (doc (makeAbsolute (fold step evs (init env c opts d)))) StickyElement ''bottom''
     = Some (Px (offsetBottom (fold step evs (init env c opts d)) - borderBottomWidth c)) \<and>
   styleOf (l_doc (legacy_makeAbsolute t)) StickyElement ''bottom''
     = Some (Px (l_offsetBottom t)) \<and>
   styleOf (l_doc (legacy_makeAbsolute t)) StickyElement ''left''
     = styleOf (l_doc t) StickyElement ''left''"
proof -
  have run: "container (fold step evs (init env c opts d)) = c"
    "offsetBottom (fold step evs (init env c opts d)) = borderBottomWidth c + paddingBottom c"
    by (simp_all add: container_offsetBottom_run container_offsetBottom_init)
  have bottom: "styleOf (doc (makeAbsolute r)) StickyElement ''bottom''
      = Some (Px (paddingBottom (container r)))" for r
    by (simp add: makeAbsolute_def Let_def setStyle_def)
  show ?thesis
    unfolding bottom run
    by (simp add: makeAbsolute_def legacy_makeAbsolute_def Let_def setStyle_def)
qed

theorem makeAbsolute_writes_paddingBottom_witness:
  "offsetBottom (fold step [Scroll (scrolledTo 200), Frame (scrolledTo 200)] example_instance)
     = 7 \<and>
   styleOf (doc (makeAbsolute
       (fold step [Scroll (scrolledTo 200), Frame (scrolledTo 200)] example_instance)))
     StickyElement ''bottom'' = Some (Px 5) \<and>
   styleOf (doc (makeAbsolute example_instance)) StickyElement ''top'' = None \<and>
   styleOf (l_doc (legacy_makeAbsolute example_legacy)) StickyElement ''bottom''
     = Some (Px (l_offsetBottom example_legacy))"
proof -
  have metrics: "borderBottomWidth example_container = 2" "paddingBottom example_container = 5"
    by (simp_all add: example_defs)
  show ?thesis
    using makeAbsolute_writes_paddingBottom
      [of example_instance "[Scroll (scrolledTo 200), Frame (scrolledTo 200)]"
        example_layout example_container example_options empty_document example_legacy]
    by (simp add: metrics example_instance_def [symmetric])
qed

text \<open>
  Against C6 as the specification words it (the transition to Static): after Fixed then
  Static the element still carries the top and left that Fixed wrote,
  and after Absolute then Static the bottom that Absolute wrote.
\<close>

theorem makeStatic_keeps_offsets_counterexample:
  "styleOf (doc (makeStatic (makeFixed example_instance))) StickyElement ''top'' = Some (Px 5) \<and>
   styleOf (doc (makeStatic (makeFixed example_instance))) StickyElement ''left'' = Some (Px 17) \<and>
   styleOf (doc (makeStatic (makeAbsolute example_instance))) StickyElement ''bottom''
     = Some (Px 5) \<and>
   styleOf (doc (makeStatic (makeFixed example_instance))) StickyElement ''top'' \<noteq> None \<and>
   styleOf (doc (makeStatic (makeAbsolute example_instance))) StickyElement ''bottom'' \<noteq> None"
  by (simp add: example_defs init_defs makeStatic_def makeFixed_def makeAbsolute_def
      isStatic_def Let_def setStyle_def)

text \<open>
  C6, as the code has it. The transition to Fixed removes bottom first and then writes
  position, top and left; the transition to Absolute removes top first and then writes
  position, bottom and left; each ends by showing the placeholder. The transition to
  Static writes position (\<^verbatim>\<open>static\<close>) and hides the placeholder, and nothing
  else: top, bottom and left stay as they were.
\<close>

theorem transitions_write_in_order:
  "writes (doc (makeFixed s))
     = writes (doc s) @
       [(StickyElement, ''bottom'', None),
        (StickyElement, ''position'', Some (Ident ''fixed'')),
        (StickyElement, ''top'', Some (Px (offsetTop s))),
        (StickyElement, ''left'', Some (Px (leftPositionWhenFixed s))),
        (PlaceholderElement, ''display'', Some (Ident ''block''))] \<and>
   styleOf (doc (makeFixed s)) StickyElement ''bottom'' = None \<and>
   writes (doc (makeAbsolute s))
     = writes (doc s) @
       [(StickyElement, ''top'', None),
        (StickyElement, ''position'', Some (Ident ''absolute'')),
        (StickyElement, ''bottom'', Some (Px (paddingBottom (container s)))),
        (StickyElement, ''left'', Some (Px (leftPositionWhenAbsolute s))),
        (PlaceholderElement, ''display'', Some (Ident ''block''))] \<and>
   styleOf (doc (makeAbsolute s)) StickyElement ''top'' = None \<and>
   writes (doc (makeStatic s))
     = writes (doc s) @
       [(StickyElement, ''position'', Some (Ident ''static'')),
        (PlaceholderElement, ''display'', Some (Ident ''none''))] \<and>
   styleOf (doc (makeStatic s)) StickyElement
     = (styleOf (doc s) StickyElement)(''position'' \<mapsto> Ident ''static'')"
  by (simp add: makeStatic_def makeFixed_def makeAbsolute_def Let_def setStyle_def)

section \<open>The invariant\<close>

lemma schemeInvariant_update: "schemeInvariant s \<Longrightarrow> schemeInvariant (update env s)"
  by (auto simp add: schemeInvariant_def update_defs scheme_consts Let_def setStyle_def)

lemma schemeInvariant_funpow_update:
  "schemeInvariant s \<Longrightarrow> schemeInvariant ((update env ^^ n) s)"
  by (induction n) (simp_all add: schemeInvariant_update)

lemma schemeInvariant_step: "schemeInvariant s \<Longrightarrow> schemeInvariant (step e s)"
proof (cases e)
  case (Scroll env)
  assume "schemeInvariant s"
  then show ?thesis
    by (simp add: Scroll onScroll_def schemeInvariant_def)
next
  case (Frame env)
  assume "schemeInvariant s"
  then have "schemeInvariant (s\<lparr>rafQueue := 0\<rparr>)"
    by (simp add: schemeInvariant_def)
  then show ?thesis
    by (simp add: Frame animationFrame_def schemeInvariant_funpow_update)
next
  case (Refresh env)
  assume "schemeInvariant s"
  then show ?thesis
    by (simp add: Refresh refresh_defs measure_defs schemeInvariant_def setStyle_def)
qed

lemma schemeInvariant_init: "schemeInvariant (init env c opts d)"
  by (simp add: schemeInvariant_def init_defs Let_def setStyle_def split: js_value.split)

lemma schemeInvariant_run:
  "schemeInvariant s \<Longrightarrow> schemeInvariant (fold step evs s)"
  by (induction evs arbitrary: s) (simp_all add: schemeInvariant_step)

text \<open>
  C8. Each transition leaves the instance in its scheme with the placeholder hidden
  (Static) or shown (Fixed, Absolute), and every operation keeps that pairing. So after
  initialization and any sequence of scroll notifications, frames and refreshes, the
  instance is in exactly one of the schemes Static, Fixed, Absolute, and the
  placeholder is shown if and only if the scheme is not Static.
\<close>

theorem exactly_one_scheme_and_placeholder:
  "schemeInvariant (makeStatic s) \<and> schemeInvariant (makeFixed s) \<and>
   schemeInvariant (makeAbsolute s) \<and>
   (schemeInvariant s \<longrightarrow> schemeInvariant (step e s)) \<and>
   (isStatic (fold step evs (init env c opts d))
      \<or> isFixed (fold step evs (init env c opts d))
      \<or> isAbsolute (fold step evs (init env c opts d))) \<and>
   \<not> (isStatic (fold step evs (init env c opts d)) \<and> isFixed (fold step evs (init env c opts d))) \<and>
   \<not> (isStatic (fold step evs (init env c opts d))
        \<and> isAbsolute (fold step evs (init env c opts d))) \<and>
   \<not> (isFixed (fold step evs (init env c opts d))
        \<and> isAbsolute (fold step evs (init env c opts d))) \<and>
   placeholderShown (fold step evs (init env c opts d))
     = (\<not> isStatic (fold step evs (init env c opts d)))"
proof -
  have "schemeInvariant (fold step evs (init env c opts d))"
    by (rule schemeInvariant_run) (rule schemeInvariant_init)
  moreover have "schemeInvariant (makeStatic s)" "schemeInvariant (makeFixed s)"
    "schemeInvariant (makeAbsolute s)"
    by (simp_all add: schemeInvariant_def makeStatic_def makeFixed_def makeAbsolute_def
        Let_def setStyle_def)
  moreover have "schemeInvariant s \<longrightarrow> schemeInvariant (step e s)"
    by (simp add: schemeInvariant_step)
  moreover have "isStatic r \<or> isFixed r \<or> isAbsolute r"
    and "\<not> (isStatic r \<and> isFixed r)" and "\<not> (isStatic r \<and> isAbsolute r)"
    and "\<not> (isFixed r \<and> isAbsolute r)" and "placeholderShown r = (\<not> isStatic r)"
    if "schemeInvariant r" for r
    using that
    by (auto simp add: schemeInvariant_def placeholderShown_def isStatic_def isFixed_def
        isAbsolute_def scheme_consts)
  ultimately show ?thesis
    by blast
qed

theorem exactly_one_scheme_and_placeholder_witness:
  "schemeInvariant example_instance \<and>
   schemeInvariant (step (Scroll (scrolledTo 60)) example_instance) \<and>
   isFixed (fold step [Scroll (scrolledTo 60), Frame (scrolledTo 60), Refresh (scrolledTo 60)]
      example_instance) \<and>
   placeholderShown
     (fold step [Scroll (scrolledTo 60), Frame (scrolledTo 60), Refresh (scrolledTo 60)]
        example_instance)"
  using exactly_one_scheme_and_placeholder
    [of example_instance "Scroll (scrolledTo 60)"
      "[Scroll (scrolledTo 60), Frame (scrolledTo 60), Refresh (scrolledTo 60)]"
      example_layout example_container example_options empty_document]
  by (simp add: example_defs init_defs onScroll_def animationFrame_def refresh_defs update_defs
      placeholderShown_def schemeInvariant_def scheme_consts Let_def setStyle_def)

section \<open>Re-measurement\<close>

text \<open>
  C9. In a state whose scheme is not Static, \<^verbatim>\<open>refresh\<close> computes the threshold
  from the placeholder's viewport-relative top (not from the element's), keeps the
  scheme, the element's styles, the placeholder's visibility, the pending flag and the
  queue as they were; the next evaluation is the one that compares the scroll offset
  with the new threshold.
\<close>

theorem refresh_uses_placeholder:
  assumes "posScheme s \<noteq> POS_SCHEME_STATIC"
  shows "threshold (refresh env s) = latestKnownScrollY s + placeholderRectTop env - offsetTop s \<and>
         posScheme (refresh env s) = posScheme s \<and>
         styleOf (doc (refresh env s)) StickyElement = styleOf (doc s) StickyElement \<and>
         styleOf (doc (refresh env s)) PlaceholderElement ''display''
           = styleOf (doc s) PlaceholderElement ''display'' \<and>
         rafQueue (refresh env s) = rafQueue s \<and>
         isTicking (refresh env s) = isTicking s \<and>
         (posScheme (update env' (refresh env s)) = POS_SCHEME_STATIC)
           = (latestKnownScrollY s < latestKnownScrollY s + placeholderRectTop env - offsetTop s)"
  using assms
  by (simp add: refresh_defs measure_defs update_defs scheme_consts Let_def setStyle_def)

theorem refresh_uses_placeholder_witness:
  "posScheme (update (scrolledTo 60) (onScroll (scrolledTo 60) example_instance))
     \<noteq> POS_SCHEME_STATIC \<and>
   threshold (refresh ((scrolledTo 60)\<lparr>stickyRectTop := 5, placeholderRectTop := 30\<rparr>)
       (update (scrolledTo 60) (onScroll (scrolledTo 60) example_instance))) = 85 \<and>
   posScheme (refresh ((scrolledTo 60)\<lparr>stickyRectTop := 5, placeholderRectTop := 30\<rparr>)
       (update (scrolledTo 60) (onScroll (scrolledTo 60) example_instance))) = POS_SCHEME_FIXED"
proof -
  have fixed: "posScheme (update (scrolledTo 60) (onScroll (scrolledTo 60) example_instance))
      = POS_SCHEME_FIXED"
    by (simp add: example_defs init_defs onScroll_def update_defs scheme_consts Let_def
        setStyle_def)
  then have nonstatic:
    "posScheme (update (scrolledTo 60) (onScroll (scrolledTo 60) example_instance))
      \<noteq> POS_SCHEME_STATIC"
    by (simp add: scheme_consts)
  show ?thesis
    using refresh_uses_placeholder [OF nonstatic,
        where env = "(scrolledTo 60)\<lparr>stickyRectTop := 5, placeholderRectTop := 30\<rparr>"
          and env' = "scrolledTo 60"]
    by (simp add: example_defs init_defs onScroll_def update_defs refresh_defs scheme_consts
        Let_def setStyle_def)
qed

text \<open>
  C10. \<^verbatim>\<open>refresh\<close> changes the threshold, the sticky collaborator's box and the
  placeholder's size, and nothing else: offsetTop, offsetBottom, both left positions, the
  pending flag and the latest known scroll offset stay, also when the container's box
  metrics have changed since construction.
\<close>

theorem refresh_changes_only_threshold_and_boxes:
  "refresh env s
     = s\<lparr>threshold := threshold (refresh env s), sticky := sticky (refresh env s),
         doc := doc (refresh env s)\<rparr> \<and>
   offsetTop (refresh env s) = offsetTop s \<and>
   offsetBottom (refresh env s) = offsetBottom s \<and>
   leftPositionWhenFixed (refresh env s) = leftPositionWhenFixed s \<and>
   leftPositionWhenAbsolute (refresh env s) = leftPositionWhenAbsolute s \<and>
   isTicking (refresh env s) = isTicking s \<and>
   latestKnownScrollY (refresh env s) = latestKnownScrollY s \<and>
   container (refresh env s) = container s \<and>
   offsetTop (refresh env (s\<lparr>container := c'\<rparr>)) = offsetTop s \<and>
   offsetBottom (refresh env (s\<lparr>container := c'\<rparr>)) = offsetBottom s"
  by (simp add: refresh_defs measure_defs Let_def)

end
